theory Spec2Isabelle
  imports Complex_Main "HOL-Library.AList" "HOL-Library.Monad_Syntax"
begin

section \<open>Values and dictionaries\<close>

text \<open>
  The handlers of \<^verbatim>\<open>main.py\<close> return plain Python dictionaries: documents read from
  the document store, or the \<^verbatim>\<open>model_dump()\<close> of a pydantic model. A value is what
  a decoded JSON or BSON document can hold. A dictionary is an association list with its
  keys in insertion order; \<open>map_of\<close> reads it. A float is the real number it denotes (the
  floats the program itself builds are 399, 29 and 99), and \<open>PObjectId\<close> is the
  identifier the driver gives a stored document by default.
\<close>

datatype pyval =
    PNone
  | PBool bool
  | PInt int
  | PFloat real
  | PStr string
  | PList "pyval list"
  | PDict "(string \<times> pyval) list"
  | PObjectId string

type_synonym doc = "(string \<times> pyval) list"

text \<open>\<^verbatim>\<open>d.get(k, default)\<close>\<close>

definition dict_get :: "doc \<Rightarrow> string \<Rightarrow> pyval \<Rightarrow> pyval" where
  "dict_get d k dflt = (case map_of d k of None \<Rightarrow> dflt | Some v \<Rightarrow> v)"

text \<open>\<^verbatim>\<open>d[k] = v\<close>: an existing key keeps its place, a new key goes last.\<close>

definition dict_set :: "doc \<Rightarrow> string \<Rightarrow> pyval \<Rightarrow> doc" where
  "dict_set d k v = AList.update k v d"

text \<open>
  \<^verbatim>\<open>for s in v\<close>: a list yields its elements, a dictionary its keys, a string its
  characters; any other value is not iterable and raises TypeError (\<open>None\<close>).
\<close>

fun iter :: "pyval \<Rightarrow> pyval list option" where
  "iter (PList xs) = Some xs"
| "iter (PDict kvs) = Some (map (\<lambda>kv. PStr (fst kv)) kvs)"
| "iter (PStr s) = Some (map (\<lambda>c. PStr [c]) s)"
| "iter v = None"

fun opt :: "('a \<Rightarrow> pyval) \<Rightarrow> 'a option \<Rightarrow> pyval" where
  "opt f None = PNone"
| "opt f (Some x) = f x"

section \<open>Pydantic models\<close>

text \<open>
  Validation of one field. A value that already has the declared type is taken as it
  is. For \<^verbatim>\<open>int\<close> and \<^verbatim>\<open>bool\<close> pydantic also converts some values of other types
  (its lax mode); that conversion is library behaviour outside \<^verbatim>\<open>main.py\<close> and is a
  parameter here. For \<^verbatim>\<open>str\<close> and \<^verbatim>\<open>Dict[str, Any]\<close> no value of another type of
  \<open>pyval\<close> is accepted. \<open>None\<close> is a ValidationError.
\<close>

record pydantic =
  int_lax :: "pyval \<Rightarrow> int option"
  bool_lax :: "pyval \<Rightarrow> bool option"

fun validate_str :: "pyval \<Rightarrow> string option" where
  "validate_str (PStr s) = Some s"
| "validate_str v = None"

fun validate_opt_str :: "pyval \<Rightarrow> string option option" where
  "validate_opt_str PNone = Some None"
| "validate_opt_str (PStr s) = Some (Some s)"
| "validate_opt_str v = None"

fun validate_dict :: "pyval \<Rightarrow> doc option" where
  "validate_dict (PDict d) = Some d"
| "validate_dict v = None"

fun validate_int :: "pydantic \<Rightarrow> pyval \<Rightarrow> int option" where
  "validate_int P (PInt i) = Some i"
| "validate_int P v = int_lax P v"

fun validate_bool :: "pydantic \<Rightarrow> pyval \<Rightarrow> bool option" where
  "validate_bool P (PBool b) = Some b"
| "validate_bool P v = bool_lax P v"

text \<open>A field without a default must be given; a field with a default takes it when
  the key is missing. Keys that are no field of the model are ignored.\<close>

definition required :: "(pyval \<Rightarrow> 'a option) \<Rightarrow> doc \<Rightarrow> string \<Rightarrow> 'a option" where
  "required f d k = (case map_of d k of None \<Rightarrow> None | Some v \<Rightarrow> f v)"

definition defaulted :: "(pyval \<Rightarrow> 'a option) \<Rightarrow> 'a \<Rightarrow> doc \<Rightarrow> string \<Rightarrow> 'a option" where
  "defaulted f dflt d k = (case map_of d k of None \<Rightarrow> Some dflt | Some v \<Rightarrow> f v)"

subsection \<open>Section\<close>

record Section =
  Section_type :: string
  Section_data :: doc
  Section_position :: int
  Section_is_visible :: bool

text \<open>\<^verbatim>\<open>Section(type=t)\<close>: the other fields at their defaults.\<close>

definition new_Section :: "string \<Rightarrow> Section" where
  "new_Section t =
     \<lparr>Section_type = t, Section_data = [], Section_position = 0, Section_is_visible = True\<rparr>"

text \<open>\<^verbatim>\<open>Section(**s)\<close>\<close>

definition validate_Section :: "pydantic \<Rightarrow> doc \<Rightarrow> Section option" where
  "validate_Section P s = do {
     t \<leftarrow> required validate_str s ''type'';
     d \<leftarrow> defaulted validate_dict [] s ''data'';
     p \<leftarrow> defaulted (validate_int P) 0 s ''position'';
     v \<leftarrow> defaulted (validate_bool P) True s ''is_visible'';
     Some \<lparr>Section_type = t, Section_data = d, Section_position = p, Section_is_visible = v\<rparr>
   }"

definition model_dump_Section :: "Section \<Rightarrow> doc" where
  "model_dump_Section s =
     [(''type'', PStr (Section_type s)),
      (''data'', PDict (Section_data s)),
      (''position'', PInt (Section_position s)),
      (''is_visible'', PBool (Section_is_visible s))]"

subsection \<open>Page\<close>

record Page =
  Page_title :: string
  Page_slug :: string
  Page_status :: string
  Page_locale :: string
  Page_sections :: "Section list"

definition new_Page :: "string \<Rightarrow> string \<Rightarrow> Page" where
  "new_Page t s =
     \<lparr>Page_title = t, Page_slug = s, Page_status = ''published'', Page_locale = ''en'',
      Page_sections = []\<rparr>"

definition model_dump_Page :: "Page \<Rightarrow> doc" where
  "model_dump_Page p =
     [(''title'', PStr (Page_title p)),
      (''slug'', PStr (Page_slug p)),
      (''status'', PStr (Page_status p)),
      (''locale'', PStr (Page_locale p)),
      (''sections'', PList (map (\<lambda>s. PDict (model_dump_Section s)) (Page_sections p)))]"

subsection \<open>Product\<close>

record Product =
  Product_name :: string
  Product_slug :: string
  Product_sku :: "string option"
  Product_short_desc :: "string option"
  Product_price :: "real option"
  Product_currency :: "string option"
  Product_specs :: doc
  Product_category :: "string option"
  Product_model_3d_url :: "string option"
  Product_images :: "string list"

definition new_Product :: "string \<Rightarrow> string \<Rightarrow> Product" where
  "new_Product n s =
     \<lparr>Product_name = n, Product_slug = s, Product_sku = None, Product_short_desc = None,
      Product_price = None, Product_currency = Some ''USD'', Product_specs = [],
      Product_category = None, Product_model_3d_url = None, Product_images = []\<rparr>"

definition model_dump_Product :: "Product \<Rightarrow> doc" where
  "model_dump_Product p =
     [(''name'', PStr (Product_name p)),
      (''slug'', PStr (Product_slug p)),
      (''sku'', opt PStr (Product_sku p)),
      (''short_desc'', opt PStr (Product_short_desc p)),
      (''price'', opt PFloat (Product_price p)),
      (''currency'', opt PStr (Product_currency p)),
      (''specs'', PDict (Product_specs p)),
      (''category'', opt PStr (Product_category p)),
      (''model_3d_url'', opt PStr (Product_model_3d_url p)),
      (''images'', PList (map PStr (Product_images p)))]"

subsection \<open>Lead\<close>

record Lead =
  Lead_name :: string
  Lead_email :: string
  Lead_phone :: "string option"
  Lead_company :: "string option"
  Lead_message :: "string option"
  Lead_product_slug :: "string option"
  Lead_source :: "string option"

text \<open>The request body of \<^verbatim>\<open>POST /api/leads\<close>, a JSON object, validated as a Lead.\<close>

definition validate_Lead :: "doc \<Rightarrow> Lead option" where
  "validate_Lead b = do {
     n \<leftarrow> required validate_str b ''name'';
     e \<leftarrow> required validate_str b ''email'';
     ph \<leftarrow> defaulted validate_opt_str None b ''phone'';
     c \<leftarrow> defaulted validate_opt_str None b ''company'';
     m \<leftarrow> defaulted validate_opt_str None b ''message'';
     ps \<leftarrow> defaulted validate_opt_str None b ''product_slug'';
     src \<leftarrow> defaulted validate_opt_str (Some ''website'') b ''source'';
     Some \<lparr>Lead_name = n, Lead_email = e, Lead_phone = ph, Lead_company = c,
           Lead_message = m, Lead_product_slug = ps, Lead_source = src\<rparr>
   }"

definition model_dump_Lead :: "Lead \<Rightarrow> doc" where
  "model_dump_Lead l =
     [(''name'', PStr (Lead_name l)),
      (''email'', PStr (Lead_email l)),
      (''phone'', opt PStr (Lead_phone l)),
      (''company'', opt PStr (Lead_company l)),
      (''message'', opt PStr (Lead_message l)),
      (''product_slug'', opt PStr (Lead_product_slug l)),
      (''source'', opt PStr (Lead_source l))]"

section \<open>The document store\<close>

text \<open>
  The module \<^verbatim>\<open>database\<close> is not part of \<^verbatim>\<open>main.py\<close>; its state is the environment of
  every handler. Importing \<^verbatim>\<open>db\<close> from it raises (\<open>ImportError\<close>) or gives the value of
  \<^verbatim>\<open>db\<close>, which is \<^verbatim>\<open>None\<close> or a client. A client holds named collections; a
  collection either answers queries from its stored documents or raises on every query
  (the server cannot be reached). A call that may raise returns an option, \<open>None\<close> when it
  raises.
\<close>

datatype collection = Failing | Docs "doc list"

type_synonym client = "(string \<times> collection) list"

datatype database = ImportError | Module "client option"

text \<open>\<^verbatim>\<open>db[name]\<close>: a client gives a collection for every name, empty when it was never
  written; \<^verbatim>\<open>None[name]\<close> raises TypeError.\<close>

fun getitem :: "client option \<Rightarrow> string \<Rightarrow> collection option" where
  "getitem None name = None"
| "getitem (Some c) name = Some (case map_of c name of None \<Rightarrow> Docs [] | Some k \<Rightarrow> k)"

text \<open>
  One condition \<^verbatim>\<open>{field: value}\<close> of a query filter holds of a document when the
  field equals the value, or is an array with the value among its elements.
\<close>

definition field_matches :: "doc \<Rightarrow> string \<times> pyval \<Rightarrow> bool" where
  "field_matches d kv =
     (case map_of d (fst kv) of
        None \<Rightarrow> False
      | Some (PList vs) \<Rightarrow> snd kv = PList vs \<or> snd kv \<in> set vs
      | Some v \<Rightarrow> v = snd kv)"

definition matches :: "doc \<Rightarrow> doc \<Rightarrow> bool" where
  "matches flt d = list_all (field_matches d) flt"

text \<open>A projection \<^verbatim>\<open>{k: 0}\<close> leaves the named top-level fields out.\<close>

definition exclude :: "string list \<Rightarrow> doc \<Rightarrow> doc" where
  "exclude ks d = filter (\<lambda>kv. fst kv \<notin> set ks) d"

text \<open>\<^verbatim>\<open>coll.find_one(flt, {k: 0, ...})\<close> and \<^verbatim>\<open>list(coll.find(flt, {k: 0, ...}))\<close>;
  the list of excluded fields is empty when the call passes no projection.\<close>

definition find_one :: "collection \<Rightarrow> doc \<Rightarrow> string list \<Rightarrow> doc option option" where
  "find_one c flt ks =
     (case c of
        Failing \<Rightarrow> None
      | Docs ds \<Rightarrow> Some (map_option (exclude ks) (List.find (matches flt) ds)))"

definition find_all :: "collection \<Rightarrow> doc \<Rightarrow> string list \<Rightarrow> doc list option" where
  "find_all c flt ks =
     (case c of
        Failing \<Rightarrow> None
      | Docs ds \<Rightarrow> Some (map (exclude ks) (filter (matches flt) ds)))"

section \<open>Utilities\<close>

definition db_available :: "database \<Rightarrow> bool" where
  "db_available D = (case D of ImportError \<Rightarrow> False | Module db \<Rightarrow> db \<noteq> None)"

definition get_db :: "database \<Rightarrow> client option option" where
  "get_db D = (case D of ImportError \<Rightarrow> None | Module db \<Rightarrow> Some db)"

datatype error = HTTPException nat string | RequestValidationError

section \<open>Pages\<close>

definition default_homepage :: Page where
  "default_homepage =
     (let hero = (new_Section ''hero_spline'')
            \<lparr>Section_position := 0,
             Section_data :=
               [(''headline'', PStr ''Engineered Excellence. Delivered Globally.''),
                (''subheadline'',
                   PStr ''A premium, cinematic 3D experience for a global technology group.''),
                (''cta'', PDict [(''label'', PStr ''Explore Verticals''),
                                 (''href'', PStr ''#verticals'')]),
                (''splineUrl'',
                   PStr ''https://prod.spline.design/EF7JOSsHLk16Tlw9/scene.splinecode'')]\<rparr>;
          verticals = (new_Section ''feature_grid'')
            \<lparr>Section_position := 1,
             Section_data :=
               [(''id'', PStr ''verticals''),
                (''title'', PStr ''Business Verticals''),
                (''items'', PList
                   [PDict [(''title'', PStr ''Payment Devices''),
                           (''subtitle'', PStr ''POS, Tap & Pay, QR''),
                           (''icon'', PStr ''CreditCard'')],
                    PDict [(''title'', PStr ''Smart Home & IoT''),
                           (''subtitle'', PStr ''AI cameras, locks, sensors''),
                           (''icon'', PStr ''Cpu'')],
                    PDict [(''title'', PStr ''Mobile Accessories''),
                           (''subtitle'', PStr ''GaN chargers, power banks''),
                           (''icon'', PStr ''BatteryCharging'')],
                    PDict [(''title'', PStr ''R&D & Manufacturing''),
                           (''subtitle'', PStr ''Vertically integrated''),
                           (''icon'', PStr ''Factory'')]])]\<rparr>
      in (new_Page ''Home'' ''home'') \<lparr>Page_sections := [hero, verticals]\<rparr>)"

text \<open>\<^verbatim>\<open>Section(**s).model_dump() if isinstance(s, dict) else s\<close>\<close>

definition normalize_section :: "pydantic \<Rightarrow> pyval \<Rightarrow> pyval option" where
  "normalize_section P s =
     (case s of
        PDict m \<Rightarrow> map_option (\<lambda>x. PDict (model_dump_Section x)) (validate_Section P m)
      | _ \<Rightarrow> Some s)"

text \<open>
  The body of the \<^verbatim>\<open>try\<close> of \<^verbatim>\<open>get_page\<close>: \<open>None\<close> when a statement raises,
  \<open>Some (Some doc)\<close> when it returns \<open>doc\<close>, \<open>Some None\<close> when it falls through.
\<close>

definition page_from_db :: "pydantic \<Rightarrow> database \<Rightarrow> string \<Rightarrow> doc option option" where
  "page_from_db P D slug = do {
     db \<leftarrow> get_db D;
     c \<leftarrow> getitem db ''page'';
     found \<leftarrow> find_one c [(''slug'', PStr slug)] [];
     (case found of
        None \<Rightarrow> Some None
      | Some doc \<Rightarrow>
          if doc = [] then Some None
          else do {
            ss \<leftarrow> iter (dict_get doc ''sections'' (PList []));
            ns \<leftarrow> those (map (normalize_section P) ss);
            Some (Some (dict_set doc ''sections'' (PList ns)))
          })
   }"

definition get_page :: "pydantic \<Rightarrow> database \<Rightarrow> string \<Rightarrow> error + doc" where
  "get_page P D slug =
     (case (if db_available D
            then (case page_from_db P D slug of None \<Rightarrow> None | Some r \<Rightarrow> r)
            else None) of
        Some doc \<Rightarrow> Inr doc
      | None \<Rightarrow>
          if slug = ''home'' then Inr (model_dump_Page default_homepage)
          else Inl (HTTPException 404 ''Page not found''))"

section \<open>Products\<close>

definition default_products :: "doc list" where
  "default_products =
     [model_dump_Product ((new_Product ''POS Pro X'' ''pos-pro-x'')
        \<lparr>Product_sku := Some ''POS-PRO-X'',
         Product_short_desc := Some ''Rugged POS with NFC & printer'',
         Product_price := Some 399,
         Product_category := Some ''payment'',
         Product_images := [''/images/pos-pro-x.jpg'']\<rparr>),
      model_dump_Product ((new_Product ''GaN Charger 30W'' ''gan-30w'')
        \<lparr>Product_sku := Some ''GAN-30W'',
         Product_short_desc := Some ''Ultra-compact fast charger'',
         Product_price := Some 29,
         Product_category := Some ''accessories'',
         Product_images := [''/images/gan-30w.jpg'']\<rparr>),
      model_dump_Product ((new_Product ''AI Camera S1'' ''ai-cam-s1'')
        \<lparr>Product_sku := Some ''AI-CAM-S1'',
         Product_short_desc := Some ''Smart AI security camera'',
         Product_price := Some 99,
         Product_category := Some ''smarthome'',
         Product_images := [''/images/ai-cam-s1.jpg'']\<rparr>)]"

definition products_from_db :: "database \<Rightarrow> doc list option option" where
  "products_from_db D = do {
     db \<leftarrow> get_db D;
     c \<leftarrow> getitem db ''product'';
     items \<leftarrow> find_all c [] [''_id''];
     (if items \<noteq> [] then Some (Some items) else Some None)
   }"

definition list_products :: "database \<Rightarrow> doc" where
  "list_products D =
     (case (if db_available D
            then (case products_from_db D of None \<Rightarrow> None | Some r \<Rightarrow> r)
            else None) of
        Some items \<Rightarrow> [(''items'', PList (map PDict items))]
      | None \<Rightarrow> [(''items'', PList (map PDict default_products))])"

definition product_from_db :: "database \<Rightarrow> string \<Rightarrow> doc option option" where
  "product_from_db D slug = do {
     db \<leftarrow> get_db D;
     c \<leftarrow> getitem db ''product'';
     found \<leftarrow> find_one c [(''slug'', PStr slug)] [''_id''];
     (case found of
        None \<Rightarrow> Some None
      | Some item \<Rightarrow> if item \<noteq> [] then Some (Some item) else Some None)
   }"

definition get_product :: "database \<Rightarrow> string \<Rightarrow> error + doc" where
  "get_product D slug =
     (case (if db_available D
            then (case product_from_db D slug of None \<Rightarrow> None | Some r \<Rightarrow> r)
            else None) of
        Some item \<Rightarrow> Inr item
      | None \<Rightarrow>
          (case List.find (\<lambda>p. map_of p ''slug'' = Some (PStr slug)) default_products of
             Some p \<Rightarrow> Inr p
           | None \<Rightarrow> Inl (HTTPException 404 ''Product not found'')))"

section \<open>Leads\<close>

text \<open>
  \<^verbatim>\<open>create_document\<close> is imported from the absent \<^verbatim>\<open>database\<close> module, so it is a
  parameter \<open>cd\<close>: given the collection name, the payload and the store, it raises or
  not (\<open>None\<close> when it raises) and leaves a store behind. It is handed a dictionary it
  does not change: the handler answers with the payload it built.
\<close>

type_synonym writer = "string \<Rightarrow> doc \<Rightarrow> database \<Rightarrow> unit option \<times> database"

definition create_lead :: "writer \<Rightarrow> database \<Rightarrow> Lead \<Rightarrow> database \<times> doc" where
  "create_lead cd D lead =
     (let payload = model_dump_Lead lead;
          D' = (if db_available D then snd (cd ''lead'' payload D) else D)
      in (D', [(''status'', PStr ''ok''),
               (''message'', PStr ''Lead received''),
               (''lead'', PDict payload)]))"

text \<open>The route: the body is validated as a Lead before the handler runs, and a body
  that fails validation is answered without calling it.\<close>

definition post_leads :: "writer \<Rightarrow> database \<Rightarrow> doc \<Rightarrow> database \<times> (error + doc)" where
  "post_leads cd D body =
     (case validate_Lead body of
        None \<Rightarrow> (D, Inl RequestValidationError)
      | Some lead \<Rightarrow> (case create_lead cd D lead of (D', r) \<Rightarrow> (D', Inr r)))"

section \<open>Notions for the statements\<close>

text \<open>
  A pydantic that converts nothing (its strict mode), for evaluating the handlers on
  documents whose fields already have the declared types.
\<close>

definition strict_mode :: pydantic where
  "strict_mode = \<lparr>int_lax = (\<lambda>v. None), bool_lax = (\<lambda>v. None)\<rparr>"

text \<open>
  What the store holds in a collection: \<open>None\<close> when there is no store (the import fails
  or \<^verbatim>\<open>db\<close> is \<^verbatim>\<open>None\<close>) or when queries on the collection raise.
\<close>

definition stored_docs :: "database \<Rightarrow> string \<Rightarrow> doc list option" where
  "stored_docs D name =
     (case D of
        ImportError \<Rightarrow> None
      | Module db \<Rightarrow> (case getitem db name of Some (Docs ds) \<Rightarrow> Some ds | _ \<Rightarrow> None))"

text \<open>The stored document a query for the slug finds: the first one matching.\<close>

definition stored :: "database \<Rightarrow> string \<Rightarrow> string \<Rightarrow> doc option" where
  "stored D name slug =
     (case stored_docs D name of
        None \<Rightarrow> None
      | Some ds \<Rightarrow> List.find (matches [(''slug'', PStr slug)]) ds)"

text \<open>
  What the body of a lead holds under a key: a string; or, for a field that may be
  omitted, nothing, \<^verbatim>\<open>null\<close> or a string.
\<close>

fun is_str :: "pyval option \<Rightarrow> bool" where
  "is_str (Some (PStr s)) = True"
| "is_str v = False"

fun is_opt_str :: "pyval option \<Rightarrow> bool" where
  "is_opt_str None = True"
| "is_opt_str (Some PNone) = True"
| "is_opt_str (Some (PStr s)) = True"
| "is_opt_str v = False"

text \<open>The fields of a Lead that have a default.\<close>

definition optional_fields :: "string list" where
  "optional_fields = [''phone'', ''company'', ''message'', ''product_slug'', ''source'']"

text \<open>A \<^verbatim>\<open>create_document\<close> whose every write fails.\<close>

definition always_raises :: writer where
  "always_raises name payload D = (None, D)"



section \<open>Facts about the store and the fallbacks\<close>

lemma stored_docs_None_iff:
  "stored_docs D name = None \<longleftrightarrow>
     \<not> db_available D \<or> (\<exists>db. get_db D = Some db \<and> getitem db name = Some Failing)"
proof (cases D)
  case ImportError
  then show ?thesis by (simp add: stored_docs_def db_available_def)
next
  case (Module db)
  then show ?thesis
    by (cases db) (auto simp: stored_docs_def db_available_def get_db_def split: collection.splits)
qed

lemma stored_None_iff:
  "stored D name slug = None \<longleftrightarrow>
     stored_docs D name = None \<or>
     (\<exists>ds. stored_docs D name = Some ds \<and> (\<forall>d\<in>set ds. \<not> matches [(''slug'', PStr slug)] d))"
  by (auto simp: stored_def find_None_iff split: option.splits)

lemma default_products_eq:
  "default_products =
     [[(''name'', PStr ''POS Pro X''), (''slug'', PStr ''pos-pro-x''),
       (''sku'', PStr ''POS-PRO-X''), (''short_desc'', PStr ''Rugged POS with NFC & printer''),
       (''price'', PFloat 399), (''currency'', PStr ''USD''), (''specs'', PDict []),
       (''category'', PStr ''payment''), (''model_3d_url'', PNone),
       (''images'', PList [PStr ''/images/pos-pro-x.jpg''])],
      [(''name'', PStr ''GaN Charger 30W''), (''slug'', PStr ''gan-30w''),
       (''sku'', PStr ''GAN-30W''), (''short_desc'', PStr ''Ultra-compact fast charger''),
       (''price'', PFloat 29), (''currency'', PStr ''USD''), (''specs'', PDict []),
       (''category'', PStr ''accessories''), (''model_3d_url'', PNone),
       (''images'', PList [PStr ''/images/gan-30w.jpg''])],
      [(''name'', PStr ''AI Camera S1''), (''slug'', PStr ''ai-cam-s1''),
       (''sku'', PStr ''AI-CAM-S1''), (''short_desc'', PStr ''Smart AI security camera''),
       (''price'', PFloat 99), (''currency'', PStr ''USD''), (''specs'', PDict []),
       (''category'', PStr ''smarthome''), (''model_3d_url'', PNone),
       (''images'', PList [PStr ''/images/ai-cam-s1.jpg''])]]"
  by (simp add: default_products_def model_dump_Product_def new_Product_def)

lemma find_default_product:
  "List.find (\<lambda>p. map_of p ''slug'' = Some (PStr slug)) default_products =
     (if slug = ''pos-pro-x'' then Some (default_products ! 0)
      else if slug = ''gan-30w'' then Some (default_products ! 1)
      else if slug = ''ai-cam-s1'' then Some (default_products ! 2)
      else None)"
  by (simp add: default_products_eq)

lemma product_from_db_absent:
  "stored D ''product'' slug = None \<Longrightarrow> db_available D \<Longrightarrow>
     product_from_db D slug = None \<or> product_from_db D slug = Some None"
  by (auto simp: stored_def stored_docs_def product_from_db_def get_db_def find_one_def
      db_available_def split: database.splits option.splits collection.splits)

lemma get_product_fallback:
  assumes "stored D ''product'' slug = None"
  shows "get_product D slug =
     (case List.find (\<lambda>p. map_of p ''slug'' = Some (PStr slug)) default_products of
        Some p \<Rightarrow> Inr p
      | None \<Rightarrow> Inl (HTTPException 404 ''Product not found''))"
  using product_from_db_absent[OF assms] by (auto simp: get_product_def)

lemma page_from_db_absent:
  "stored D ''page'' slug = None \<Longrightarrow> db_available D \<Longrightarrow>
     page_from_db P D slug = None \<or> page_from_db P D slug = Some None"
  by (auto simp: stored_def stored_docs_def page_from_db_def get_db_def find_one_def
      db_available_def exclude_def split: database.splits option.splits collection.splits)

lemma get_page_fallback:
  assumes "stored D ''page'' slug = None"
  shows "get_page P D slug =
     (if slug = ''home'' then Inr (model_dump_Page default_homepage)
      else Inl (HTTPException 404 ''Page not found''))"
  using page_from_db_absent[OF assms, where P = P] by (auto simp: get_page_def)

lemma not_available_stored: "\<not> db_available D \<Longrightarrow> stored D name slug = None"
  using stored_docs_None_iff[of D name] by (simp add: stored_def)

section \<open>Product resolution\<close>

text \<open>
  C1, as amended. When the store gives no product document for the slug (no store, a
  query that raises, or no stored document that matches), \<^verbatim>\<open>get_product\<close> searches the
  built-in list: a slug other than \<^verbatim>\<open>pos-pro-x\<close>, \<^verbatim>\<open>gan-30w\<close> and \<^verbatim>\<open>ai-cam-s1\<close> is answered
  with the 404 "Product not found", and each of these three with the built-in product of
  that slug.
\<close>

theorem get_product_absent:
  assumes "stored D ''product'' slug = None"
  shows "(slug \<notin> {''pos-pro-x'', ''gan-30w'', ''ai-cam-s1''} \<longrightarrow>
            get_product D slug = Inl (HTTPException 404 ''Product not found'')) \<and>
         (slug \<in> {''pos-pro-x'', ''gan-30w'', ''ai-cam-s1''} \<longrightarrow>
            (\<exists>p\<in>set default_products.
               map_of p ''slug'' = Some (PStr slug) \<and> get_product D slug = Inr p))"
  unfolding get_product_fallback[OF assms] find_default_product
  by (auto simp: default_products_eq)

theorem get_product_absent_witness:
  "stored (Module (Some [(''product'', Docs [])])) ''product'' ''pos-mini'' = None \<and>
   get_product (Module (Some [(''product'', Docs [])])) ''pos-mini'' =
     Inl (HTTPException 404 ''Product not found'') \<and>
   stored (Module (Some [(''product'', Failing)])) ''product'' ''ai-cam-s1'' = None \<and>
   get_product (Module (Some [(''product'', Failing)])) ''ai-cam-s1'' =
     Inr (default_products ! 2)"
proof -
  let ?D = "Module (Some [(''product'', Docs [])])"
  let ?F = "Module (Some [(''product'', Failing)])"
  have h1: "stored ?D ''product'' ''pos-mini'' = None"
    by (simp add: stored_def stored_docs_def)
  have h2: "stored ?F ''product'' ''ai-cam-s1'' = None"
    by (simp add: stored_def stored_docs_def)
  from get_product_absent[OF h1]
  have a: "get_product ?D ''pos-mini'' = Inl (HTTPException 404 ''Product not found'')"
    by simp
  from get_product_absent[OF h2]
  have b: "get_product ?F ''ai-cam-s1'' = Inr (default_products ! 2)"
    by (auto simp: default_products_eq)
  from h1 h2 a b show ?thesis by blast
qed

text \<open>
  C1 as the specification states it fails: with no store at all there is no stored
  document for \<^verbatim>\<open>gan-30w\<close>, and the answer is not the 404.
\<close>

theorem get_product_gan_30w_is_not_404:
  "stored ImportError ''product'' ''gan-30w'' = None \<and>
   get_product ImportError ''gan-30w'' \<noteq> Inl (HTTPException 404 ''Product not found'')"
  by (simp add: stored_def stored_docs_def get_product_def db_available_def
      default_products_eq)

text \<open>
  C9. With no store configured, \<^verbatim>\<open>get_product\<close> answers the slug \<^verbatim>\<open>gan-30w\<close> with a
  product whose price is 29 and whose currency is USD.
\<close>

theorem get_product_gan_30w:
  assumes "\<not> db_available D"
  shows "\<exists>p. get_product D ''gan-30w'' = Inr p \<and>
             map_of p ''price'' = Some (PFloat 29) \<and>
             map_of p ''currency'' = Some (PStr ''USD'')"
  using assms by (simp add: get_product_def default_products_eq)

theorem get_product_gan_30w_witness:
  "\<not> db_available (Module None) \<and>
   (\<exists>p. get_product (Module None) ''gan-30w'' = Inr p \<and>
        map_of p ''price'' = Some (PFloat 29) \<and>
        map_of p ''currency'' = Some (PStr ''USD''))"
proof -
  have h: "\<not> db_available (Module None)" by (simp add: db_available_def)
  from h get_product_gan_30w[OF h] show ?thesis by blast
qed

section \<open>Page resolution\<close>

text \<open>
  C6. For a slug other than \<^verbatim>\<open>home\<close>, when the store gives no page document for it (no
  store, a query that raises, or no stored document that matches), \<^verbatim>\<open>get_page\<close> fails
  with the 404 "Page not found".
\<close>

theorem get_page_absent:
  assumes "slug \<noteq> ''home''" and "stored D ''page'' slug = None"
  shows "get_page P D slug = Inl (HTTPException 404 ''Page not found'')"
  using assms by (simp add: get_page_fallback)

theorem get_page_absent_witness:
  "''about'' \<noteq> ''home'' \<and>
   stored (Module (Some [(''page'', Docs [[(''title'', PStr ''Home''), (''slug'', PStr ''home'')]])]))
      ''page'' ''about'' = None \<and>
   get_page strict_mode
      (Module (Some [(''page'', Docs [[(''title'', PStr ''Home''), (''slug'', PStr ''home'')]])]))
      ''about'' = Inl (HTTPException 404 ''Page not found'')"
proof -
  let ?D = "Module (Some [(''page'', Docs [[(''title'', PStr ''Home''), (''slug'', PStr ''home'')]])])"
  have h1: "''about'' \<noteq> ''home''" by simp
  have h2: "stored ?D ''page'' ''about'' = None"
    by (simp add: stored_def stored_docs_def matches_def field_matches_def)
  from h1 h2 get_page_absent[OF h1 h2, of strict_mode] show ?thesis by blast
qed

lemma default_homepage_dump:
  "model_dump_Page default_homepage =
     [(''title'', PStr ''Home''), (''slug'', PStr ''home''), (''status'', PStr ''published''),
      (''locale'', PStr ''en''),
      (''sections'', PList
         [PDict (model_dump_Section (Page_sections default_homepage ! 0)),
          PDict (model_dump_Section (Page_sections default_homepage ! 1))])]"
  by (simp add: default_homepage_def model_dump_Page_def new_Page_def Let_def)

text \<open>
  C5. With no store configured, \<^verbatim>\<open>get_page\<close> answers the slug \<^verbatim>\<open>home\<close> with the built-in
  page: its slug is \<^verbatim>\<open>home\<close> and it has exactly two sections, first the hero section at
  position 0, then the feature grid at position 1.
\<close>

theorem get_page_home_default:
  assumes "\<not> db_available D"
  shows "\<exists>hero grid.
           get_page P D ''home'' =
             Inr [(''title'', PStr ''Home''), (''slug'', PStr ''home''),
                  (''status'', PStr ''published''), (''locale'', PStr ''en''),
                  (''sections'', PList [PDict hero, PDict grid])] \<and>
           get_page P D ''home'' = Inr (model_dump_Page default_homepage) \<and>
           map_of hero ''type'' = Some (PStr ''hero_spline'') \<and>
           map_of hero ''position'' = Some (PInt 0) \<and>
           map_of grid ''type'' = Some (PStr ''feature_grid'') \<and>
           map_of grid ''position'' = Some (PInt 1)"
proof -
  have "get_page P D ''home'' = Inr (model_dump_Page default_homepage)"
    using assms by (simp add: get_page_def)
  moreover have "Section_type (Page_sections default_homepage ! 0) = ''hero_spline''"
    "Section_position (Page_sections default_homepage ! 0) = 0"
    "Section_type (Page_sections default_homepage ! 1) = ''feature_grid''"
    "Section_position (Page_sections default_homepage ! 1) = 1"
    by (simp_all add: default_homepage_def new_Page_def new_Section_def Let_def)
  ultimately show ?thesis
    by (simp add: default_homepage_dump model_dump_Section_def)
qed

theorem get_page_home_default_witness:
  "\<not> db_available ImportError \<and>
   (\<exists>hero grid.
           get_page strict_mode ImportError ''home'' =
             Inr [(''title'', PStr ''Home''), (''slug'', PStr ''home''),
                  (''status'', PStr ''published''), (''locale'', PStr ''en''),
                  (''sections'', PList [PDict hero, PDict grid])] \<and>
           get_page strict_mode ImportError ''home'' = Inr (model_dump_Page default_homepage) \<and>
           map_of hero ''type'' = Some (PStr ''hero_spline'') \<and>
           map_of hero ''position'' = Some (PInt 0) \<and>
           map_of grid ''type'' = Some (PStr ''feature_grid'') \<and>
           map_of grid ''position'' = Some (PInt 1))"
proof -
  have h: "\<not> db_available ImportError" by (simp add: db_available_def)
  from h get_page_home_default[OF h, of strict_mode] show ?thesis by blast
qed

section \<open>Failure of the store\<close>

text \<open>
  C3, as amended. A store that is missing, or whose queries on the collection raise, is
  answered as if no store were configured; no other error is raised. For a page that
  answer is the built-in page for \<^verbatim>\<open>home\<close> and the 404 otherwise; for a product it is
  the built-in product for \<^verbatim>\<open>pos-pro-x\<close>, \<^verbatim>\<open>gan-30w\<close> and \<^verbatim>\<open>ai-cam-s1\<close>, and the 404
  otherwise.
\<close>

theorem storage_failure_as_absence:
  assumes "\<not> db_available D0"
  shows "(stored_docs D ''page'' = None \<longrightarrow>
            get_page P D slug = get_page P D0 slug \<and>
            get_page P D slug =
              (if slug = ''home'' then Inr (model_dump_Page default_homepage)
               else Inl (HTTPException 404 ''Page not found''))) \<and>
         (stored_docs D ''product'' = None \<longrightarrow>
            get_product D slug = get_product D0 slug \<and>
            (slug \<notin> {''pos-pro-x'', ''gan-30w'', ''ai-cam-s1''} \<longrightarrow>
               get_product D slug = Inl (HTTPException 404 ''Product not found'')) \<and>
            (slug \<in> {''pos-pro-x'', ''gan-30w'', ''ai-cam-s1''} \<longrightarrow>
               (\<exists>p\<in>set default_products.
                  map_of p ''slug'' = Some (PStr slug) \<and> get_product D slug = Inr p)))"
proof -
  have pg0: "stored D0 ''page'' slug = None" and pr0: "stored D0 ''product'' slug = None"
    using assms by (simp_all add: not_available_stored)
  have pg: "get_page P D slug = get_page P D0 slug \<and>
            get_page P D slug =
              (if slug = ''home'' then Inr (model_dump_Page default_homepage)
               else Inl (HTTPException 404 ''Page not found''))"
    if "stored_docs D ''page'' = None"
  proof -
    from that have "stored D ''page'' slug = None" by (simp add: stored_def)
    then show ?thesis by (simp add: get_page_fallback pg0)
  qed
  have pr: "get_product D slug = get_product D0 slug \<and>
            (slug \<notin> {''pos-pro-x'', ''gan-30w'', ''ai-cam-s1''} \<longrightarrow>
               get_product D slug = Inl (HTTPException 404 ''Product not found'')) \<and>
            (slug \<in> {''pos-pro-x'', ''gan-30w'', ''ai-cam-s1''} \<longrightarrow>
               (\<exists>p\<in>set default_products.
                  map_of p ''slug'' = Some (PStr slug) \<and> get_product D slug = Inr p))"
    if "stored_docs D ''product'' = None"
  proof -
    from that have s: "stored D ''product'' slug = None" by (simp add: stored_def)
    have "get_product D slug = get_product D0 slug"
      by (simp add: get_product_fallback s pr0)
    moreover have "slug \<notin> {''pos-pro-x'', ''gan-30w'', ''ai-cam-s1''} \<longrightarrow>
               get_product D slug = Inl (HTTPException 404 ''Product not found'')"
      unfolding get_product_fallback[OF s] find_default_product by simp
    moreover have "slug \<in> {''pos-pro-x'', ''gan-30w'', ''ai-cam-s1''} \<longrightarrow>
               (\<exists>p\<in>set default_products.
                  map_of p ''slug'' = Some (PStr slug) \<and> get_product D slug = Inr p)"
      unfolding get_product_fallback[OF s] find_default_product
      by (auto simp: default_products_eq)
    ultimately show ?thesis by blast
  qed
  from pg pr show ?thesis by blast
qed

theorem storage_failure_as_absence_witness:
  "\<not> db_available (Module None) \<and>
   stored_docs (Module (Some [(''page'', Failing), (''product'', Failing)])) ''page'' = None \<and>
   stored_docs (Module (Some [(''page'', Failing), (''product'', Failing)])) ''product'' = None \<and>
   get_page strict_mode (Module (Some [(''page'', Failing), (''product'', Failing)])) ''home'' =
     get_page strict_mode (Module None) ''home'' \<and>
   get_page strict_mode (Module (Some [(''page'', Failing), (''product'', Failing)])) ''home'' =
     Inr (model_dump_Page default_homepage) \<and>
   get_product (Module (Some [(''page'', Failing), (''product'', Failing)])) ''pos-mini'' =
     get_product (Module None) ''pos-mini'' \<and>
   get_product (Module (Some [(''page'', Failing), (''product'', Failing)])) ''pos-mini'' =
     Inl (HTTPException 404 ''Product not found'')"
proof -
  let ?F = "Module (Some [(''page'', Failing), (''product'', Failing)])"
  have h0: "\<not> db_available (Module None)" by (simp add: db_available_def)
  have h1: "stored_docs ?F ''page'' = None" by (simp add: stored_docs_def)
  have h2: "stored_docs ?F ''product'' = None" by (simp add: stored_docs_def)
  from storage_failure_as_absence[OF h0, of ?F strict_mode "''home''"] h1
  have a: "get_page strict_mode ?F ''home'' = get_page strict_mode (Module None) ''home''"
    "get_page strict_mode ?F ''home'' = Inr (model_dump_Page default_homepage)"
    by auto
  from storage_failure_as_absence[OF h0, of ?F strict_mode "''pos-mini''"] h2
  have b: "get_product ?F ''pos-mini'' = get_product (Module None) ''pos-mini''"
    "get_product ?F ''pos-mini'' = Inl (HTTPException 404 ''Product not found'')"
    by auto
  from h0 h1 h2 a b show ?thesis by blast
qed

text \<open>
  C3 as the specification states it (the built-in answer for the page \<^verbatim>\<open>home\<close> only,
  the 404 for everything else) fails for a product: with a store whose product queries
  raise, \<^verbatim>\<open>gan-30w\<close> is not answered with the 404.
\<close>

theorem failing_store_gan_30w_is_not_404:
  "stored_docs (Module (Some [(''product'', Failing)])) ''product'' = None \<and>
   get_product (Module (Some [(''product'', Failing)])) ''gan-30w'' \<noteq>
     Inl (HTTPException 404 ''Product not found'')"
  by (simp add: stored_docs_def get_product_def db_available_def product_from_db_def
      get_db_def find_one_def default_products_eq)

section \<open>The catalogue listing\<close>

lemma products_from_db_cases:
  assumes "db_available D"
  shows "(case products_from_db D of None \<Rightarrow> None | Some r \<Rightarrow> r) =
     (case stored_docs D ''product'' of
        None \<Rightarrow> None
      | Some ds \<Rightarrow> if ds = [] then None else Some (map (exclude [''_id'']) ds))"
proof -
  from assms obtain c where D: "D = Module (Some c)"
    by (cases D) (auto simp: db_available_def)
  obtain k where k: "getitem (Some c) ''product'' = Some k" by simp
  show ?thesis
  proof (cases k)
    case Failing
    with D k show ?thesis
      by (simp add: products_from_db_def stored_docs_def get_db_def find_all_def
          del: getitem.simps)
  next
    case (Docs ds)
    have "filter (matches []) ds = ds" by (simp add: matches_def)
    with D k Docs show ?thesis
      by (simp add: products_from_db_def stored_docs_def get_db_def find_all_def
          del: getitem.simps)
  qed
qed

lemma list_products_cases:
  "list_products D =
     [(''items'', PList (map PDict
        (case stored_docs D ''product'' of
           None \<Rightarrow> default_products
         | Some ds \<Rightarrow> if ds = [] then default_products else map (exclude [''_id'']) ds)))]"
proof (cases "db_available D")
  case False
  then have "stored_docs D ''product'' = None" by (simp add: stored_docs_None_iff)
  with False show ?thesis by (simp add: list_products_def)
next
  case True
  show ?thesis
    unfolding list_products_def products_from_db_cases[OF True]
    using True by (simp split: option.splits)
qed

lemma default_products_slugs:
  "map (\<lambda>p. map_of p ''slug'') default_products =
     [Some (PStr ''pos-pro-x''), Some (PStr ''gan-30w''), Some (PStr ''ai-cam-s1'')]"
  by (simp add: default_products_eq)

lemma default_products_not_Nil: "default_products \<noteq> []"
  by (simp add: default_products_def)

text \<open>
  C4. The catalogue listing never has an empty item list. When the store is missing,
  when the query raises, and when the query succeeds with no items, the answer is the
  built-in list of three products, with the slugs \<^verbatim>\<open>pos-pro-x\<close>, \<^verbatim>\<open>gan-30w\<close> and
  \<^verbatim>\<open>ai-cam-s1\<close> in this order.
\<close>

theorem list_products_never_empty:
  "\<exists>items. list_products D = [(''items'', PList (map PDict items))] \<and> items \<noteq> [] \<and>
     (stored_docs D ''product'' = None \<or> stored_docs D ''product'' = Some [] \<longrightarrow>
        items = default_products \<and>
        map (\<lambda>p. map_of p ''slug'') items =
          [Some (PStr ''pos-pro-x''), Some (PStr ''gan-30w''), Some (PStr ''ai-cam-s1'')])"
proof -
  define items where "items =
    (case stored_docs D ''product'' of
           None \<Rightarrow> default_products
         | Some ds \<Rightarrow> if ds = [] then default_products else map (exclude [''_id'']) ds)"
  have 1: "list_products D = [(''items'', PList (map PDict items))]"
    unfolding items_def by (rule list_products_cases)
  have 2: "items \<noteq> []"
    unfolding items_def using default_products_not_Nil by (simp split: option.splits)
  have 3: "items = default_products \<and>
        map (\<lambda>p. map_of p ''slug'') items =
          [Some (PStr ''pos-pro-x''), Some (PStr ''gan-30w''), Some (PStr ''ai-cam-s1'')]"
    if "stored_docs D ''product'' = None \<or> stored_docs D ''product'' = Some []"
  proof -
    from that have "items = default_products"
      unfolding items_def by (elim disjE) simp_all
    with default_products_slugs show ?thesis by (simp only:) 
  qed
  show ?thesis
  proof (intro exI conjI impI)
    show "list_products D = [(''items'', PList (map PDict items))]" by (rule 1)
    show "items \<noteq> []" by (rule 2)
    show "items = default_products"
      if "stored_docs D ''product'' = None \<or> stored_docs D ''product'' = Some []"
      using 3[OF that] by (rule conjunct1)
    show "map (\<lambda>p. map_of p ''slug'') items =
          [Some (PStr ''pos-pro-x''), Some (PStr ''gan-30w''), Some (PStr ''ai-cam-s1'')]"
      if "stored_docs D ''product'' = None \<or> stored_docs D ''product'' = Some []"
      using 3[OF that] by (rule conjunct2)
  qed
qed

theorem list_products_never_empty_witness:
  "stored_docs (Module (Some [(''product'', Docs [])])) ''product'' = Some [] \<and>
   list_products (Module (Some [(''product'', Docs [])])) =
     [(''items'', PList (map PDict default_products))]"
proof -
  let ?D = "Module (Some [(''product'', Docs [])])"
  have h: "stored_docs ?D ''product'' = Some []" by (simp add: stored_docs_def)
  from list_products_never_empty[of ?D] obtain items where
    a: "list_products ?D = [(''items'', PList (map PDict items))]" and
    b: "stored_docs ?D ''product'' = None \<or> stored_docs ?D ''product'' = Some [] \<longrightarrow>
        items = default_products \<and>
        map (\<lambda>p. map_of p ''slug'') items =
          [Some (PStr ''pos-pro-x''), Some (PStr ''gan-30w''), Some (PStr ''ai-cam-s1'')]"
    by (elim exE conjE)
  from h have "stored_docs ?D ''product'' = None \<or> stored_docs ?D ''product'' = Some []"
    by (rule disjI2)
  with b have "items = default_products" by (elim impE conjE)
  with a have "list_products ?D = [(''items'', PList (map PDict default_products))]"
    by (simp only:)
  with h show ?thesis by (rule conjI)
qed

section \<open>Lead intake\<close>

lemma required_str_Some_iff:
  "required validate_str b k = Some s \<longleftrightarrow> map_of b k = Some (PStr s)"
proof (cases "map_of b k")
  case None
  then show ?thesis by (simp add: required_def)
next
  case (Some v)
  then show ?thesis by (cases v) (simp_all add: required_def)
qed

lemma required_str_None_iff:
  "required validate_str b k = None \<longleftrightarrow> \<not> is_str (map_of b k)"
proof (cases "map_of b k")
  case None
  then show ?thesis by (simp add: required_def)
next
  case (Some v)
  then show ?thesis by (cases v) (simp_all add: required_def)
qed

lemma defaulted_opt_str_None_iff:
  "defaulted validate_opt_str d b k = None \<longleftrightarrow> \<not> is_opt_str (map_of b k)"
proof (cases "map_of b k")
  case None
  then show ?thesis by (simp add: defaulted_def)
next
  case (Some v)
  then show ?thesis by (cases v) (simp_all add: defaulted_def)
qed

lemma defaulted_missing: "map_of b k = None \<Longrightarrow> defaulted f d b k = Some d"
  by (simp add: defaulted_def)

lemma validate_Lead_None_iff:
  "validate_Lead b = None \<longleftrightarrow>
     \<not> is_str (map_of b ''name'') \<or> \<not> is_str (map_of b ''email'') \<or>
     (\<exists>k\<in>set optional_fields. \<not> is_opt_str (map_of b k))"
  by (simp add: validate_Lead_def optional_fields_def bind_eq_None_conv
      required_str_None_iff defaulted_opt_str_None_iff)

lemma validate_Lead_SomeD:
  assumes "validate_Lead b = Some l"
  shows "map_of b ''name'' = Some (PStr (Lead_name l))"
    and "map_of b ''email'' = Some (PStr (Lead_email l))"
    and "map_of b ''source'' = None \<Longrightarrow> Lead_source l = Some ''website''"
proof -
  from assms obtain n e ph c m ps src where
    n: "required validate_str b ''name'' = Some n" and
    e: "required validate_str b ''email'' = Some e" and
    src: "defaulted validate_opt_str (Some ''website'') b ''source'' = Some src" and
    l: "l = \<lparr>Lead_name = n, Lead_email = e, Lead_phone = ph, Lead_company = c,
           Lead_message = m, Lead_product_slug = ps, Lead_source = src\<rparr>"
    by (auto simp: validate_Lead_def bind_eq_Some_conv)
  from n l show "map_of b ''name'' = Some (PStr (Lead_name l))"
    by (simp add: required_str_Some_iff)
  from e l show "map_of b ''email'' = Some (PStr (Lead_email l))"
    by (simp add: required_str_Some_iff)
  show "Lead_source l = Some ''website''" if "map_of b ''source'' = None"
    using src l defaulted_missing[OF that, of validate_opt_str "Some ''website''"] by simp
qed

lemma create_lead_response:
  "snd (create_lead cd D lead) =
     [(''status'', PStr ''ok''), (''message'', PStr ''Lead received''),
      (''lead'', PDict (model_dump_Lead lead))]"
  by (simp add: create_lead_def Let_def)

lemma post_leads_response:
  "validate_Lead body = Some lead \<Longrightarrow>
   snd (post_leads cd D body) =
     Inr [(''status'', PStr ''ok''), (''message'', PStr ''Lead received''),
          (''lead'', PDict (model_dump_Lead lead))]"
  using create_lead_response[of cd D lead]
  by (cases "create_lead cd D lead") (simp add: post_leads_def)

lemma required_str_echo:
  "required validate_str b k = Some s \<Longrightarrow> PStr s = dict_get b k dflt"
  by (simp add: required_str_Some_iff dict_get_def)

lemma defaulted_opt_str_echo:
  assumes "defaulted validate_opt_str d b k = Some x"
  shows "opt PStr x = dict_get b k (opt PStr d)"
proof (cases "map_of b k")
  case None
  with assms show ?thesis by (simp add: defaulted_def dict_get_def)
next
  case (Some v)
  with assms show ?thesis by (cases v) (auto simp: defaulted_def dict_get_def)
qed

lemma validate_Lead_echo:
  assumes "validate_Lead b = Some l"
  shows "model_dump_Lead l =
     [(''name'', dict_get b ''name'' PNone),
      (''email'', dict_get b ''email'' PNone),
      (''phone'', dict_get b ''phone'' PNone),
      (''company'', dict_get b ''company'' PNone),
      (''message'', dict_get b ''message'' PNone),
      (''product_slug'', dict_get b ''product_slug'' PNone),
      (''source'', dict_get b ''source'' (PStr ''website''))]"
proof -
  from assms obtain n e ph c m ps src where
    n: "required validate_str b ''name'' = Some n" and
    e: "required validate_str b ''email'' = Some e" and
    ph: "defaulted validate_opt_str None b ''phone'' = Some ph" and
    c: "defaulted validate_opt_str None b ''company'' = Some c" and
    m: "defaulted validate_opt_str None b ''message'' = Some m" and
    ps: "defaulted validate_opt_str None b ''product_slug'' = Some ps" and
    src: "defaulted validate_opt_str (Some ''website'') b ''source'' = Some src" and
    l: "l = \<lparr>Lead_name = n, Lead_email = e, Lead_phone = ph, Lead_company = c,
           Lead_message = m, Lead_product_slug = ps, Lead_source = src\<rparr>"
    by (auto simp: validate_Lead_def bind_eq_Some_conv)
  have "PStr n = dict_get b ''name'' PNone" using n by (rule required_str_echo)
  moreover have "PStr e = dict_get b ''email'' PNone" using e by (rule required_str_echo)
  moreover have "opt PStr ph = dict_get b ''phone'' PNone"
    using defaulted_opt_str_echo[OF ph] by simp
  moreover have "opt PStr c = dict_get b ''company'' PNone"
    using defaulted_opt_str_echo[OF c] by simp
  moreover have "opt PStr m = dict_get b ''message'' PNone"
    using defaulted_opt_str_echo[OF m] by simp
  moreover have "opt PStr ps = dict_get b ''product_slug'' PNone"
    using defaulted_opt_str_echo[OF ps] by simp
  moreover have "opt PStr src = dict_get b ''source'' (PStr ''website'')"
    using defaulted_opt_str_echo[OF src] by simp
  ultimately show ?thesis using l by (simp add: model_dump_Lead_def)
qed

text \<open>
  C7. Every body that validates as a Lead is answered with status \<^verbatim>\<open>ok\<close> and the
  dumped lead under \<^verbatim>\<open>lead\<close>, whatever the store is and whatever the write does (\<open>cd\<close>
  and \<open>D\<close> are arbitrary: no store, a write that raises, a write that succeeds). The
  echoed payload is the body field by field: name and email as given, each of phone,
  company, message and product_slug as given and \<^verbatim>\<open>null\<close> when missing, and the source
  as given and \<^verbatim>\<open>website\<close> when missing.
\<close>

theorem create_lead_always_ok:
  assumes "validate_Lead body = Some lead"
  shows "snd (post_leads cd D body) =
           Inr [(''status'', PStr ''ok''), (''message'', PStr ''Lead received''),
                (''lead'', PDict (model_dump_Lead lead))] \<and>
         snd (create_lead cd D lead) =
           [(''status'', PStr ''ok''), (''message'', PStr ''Lead received''),
            (''lead'', PDict (model_dump_Lead lead))] \<and>
         map_of (model_dump_Lead lead) ''name'' = map_of body ''name'' \<and>
         map_of (model_dump_Lead lead) ''email'' = map_of body ''email'' \<and>
         (map_of body ''source'' = None \<longrightarrow>
            map_of (model_dump_Lead lead) ''source'' = Some (PStr ''website'')) \<and>
         model_dump_Lead lead =
           [(''name'', dict_get body ''name'' PNone),
            (''email'', dict_get body ''email'' PNone),
            (''phone'', dict_get body ''phone'' PNone),
            (''company'', dict_get body ''company'' PNone),
            (''message'', dict_get body ''message'' PNone),
            (''product_slug'', dict_get body ''product_slug'' PNone),
            (''source'', dict_get body ''source'' (PStr ''website''))]"
proof (intro conjI impI)
  show "snd (post_leads cd D body) =
           Inr [(''status'', PStr ''ok''), (''message'', PStr ''Lead received''),
                (''lead'', PDict (model_dump_Lead lead))]"
    using assms by (rule post_leads_response)
  show "snd (create_lead cd D lead) =
           [(''status'', PStr ''ok''), (''message'', PStr ''Lead received''),
            (''lead'', PDict (model_dump_Lead lead))]"
    by (rule create_lead_response)
  show "map_of (model_dump_Lead lead) ''name'' = map_of body ''name''"
    using validate_Lead_SomeD(1)[OF assms] by (simp add: model_dump_Lead_def)
  show "map_of (model_dump_Lead lead) ''email'' = map_of body ''email''"
    using validate_Lead_SomeD(2)[OF assms] by (simp add: model_dump_Lead_def)
  show "map_of (model_dump_Lead lead) ''source'' = Some (PStr ''website'')"
    if "map_of body ''source'' = None"
    using validate_Lead_SomeD(3)[OF assms that] by (simp add: model_dump_Lead_def)
  show "model_dump_Lead lead =
           [(''name'', dict_get body ''name'' PNone),
            (''email'', dict_get body ''email'' PNone),
            (''phone'', dict_get body ''phone'' PNone),
            (''company'', dict_get body ''company'' PNone),
            (''message'', dict_get body ''message'' PNone),
            (''product_slug'', dict_get body ''product_slug'' PNone),
            (''source'', dict_get body ''source'' (PStr ''website''))]"
    using assms by (rule validate_Lead_echo)
qed

lemma validate_Lead_example:
  "validate_Lead [(''name'', PStr ''A''), (''email'', PStr ''a@b.com'')] =
     Some \<lparr>Lead_name = ''A'', Lead_email = ''a@b.com'', Lead_phone = None,
           Lead_company = None, Lead_message = None, Lead_product_slug = None,
           Lead_source = Some ''website''\<rparr>"
  by (simp add: validate_Lead_def required_def defaulted_def)

lemma validate_Lead_example2:
  "validate_Lead [(''name'', PStr ''A''), (''email'', PStr ''a@b.com''), (''phone'', PStr ''1''),
                  (''source'', PStr ''fair'')] =
     Some \<lparr>Lead_name = ''A'', Lead_email = ''a@b.com'', Lead_phone = Some ''1'',
           Lead_company = None, Lead_message = None, Lead_product_slug = None,
           Lead_source = Some ''fair''\<rparr>"
  by (simp add: validate_Lead_def required_def defaulted_def)

theorem create_lead_always_ok_witness:
  "validate_Lead [(''name'', PStr ''A''), (''email'', PStr ''a@b.com'')] =
     Some \<lparr>Lead_name = ''A'', Lead_email = ''a@b.com'', Lead_phone = None,
           Lead_company = None, Lead_message = None, Lead_product_slug = None,
           Lead_source = Some ''website''\<rparr> \<and>
   snd (post_leads always_raises ImportError [(''name'', PStr ''A''), (''email'', PStr ''a@b.com'')]) =
     Inr [(''status'', PStr ''ok''), (''message'', PStr ''Lead received''),
          (''lead'', PDict [(''name'', PStr ''A''), (''email'', PStr ''a@b.com''),
             (''phone'', PNone), (''company'', PNone), (''message'', PNone),
             (''product_slug'', PNone), (''source'', PStr ''website'')])] \<and>
   validate_Lead [(''name'', PStr ''A''), (''email'', PStr ''a@b.com''), (''phone'', PStr ''1''),
                  (''source'', PStr ''fair'')] =
     Some \<lparr>Lead_name = ''A'', Lead_email = ''a@b.com'', Lead_phone = Some ''1'',
           Lead_company = None, Lead_message = None, Lead_product_slug = None,
           Lead_source = Some ''fair''\<rparr> \<and>
   snd (post_leads always_raises (Module (Some [(''lead'', Failing)]))
          [(''name'', PStr ''A''), (''email'', PStr ''a@b.com''), (''phone'', PStr ''1''),
           (''source'', PStr ''fair'')]) =
     Inr [(''status'', PStr ''ok''), (''message'', PStr ''Lead received''),
          (''lead'', PDict [(''name'', PStr ''A''), (''email'', PStr ''a@b.com''),
             (''phone'', PStr ''1''), (''company'', PNone), (''message'', PNone),
             (''product_slug'', PNone), (''source'', PStr ''fair'')])]"
proof -
  let ?b1 = "[(''name'', PStr ''A''), (''email'', PStr ''a@b.com'')]"
  let ?b2 = "[(''name'', PStr ''A''), (''email'', PStr ''a@b.com''), (''phone'', PStr ''1''),
              (''source'', PStr ''fair'')]"
  let ?F = "Module (Some [(''lead'', Failing)])"
  note h1 = validate_Lead_example
  note h2 = validate_Lead_example2
  note t1 = create_lead_always_ok[OF h1, of always_raises ImportError]
  note t2 = create_lead_always_ok[OF h2, of always_raises ?F]
  from t1 have d1: "model_dump_Lead \<lparr>Lead_name = ''A'', Lead_email = ''a@b.com'',
           Lead_phone = None, Lead_company = None, Lead_message = None,
           Lead_product_slug = None, Lead_source = Some ''website''\<rparr> =
      [(''name'', PStr ''A''), (''email'', PStr ''a@b.com''),
       (''phone'', PNone), (''company'', PNone), (''message'', PNone),
       (''product_slug'', PNone), (''source'', PStr ''website'')]"
    by (simp add: dict_get_def)
  from t2 have d2: "model_dump_Lead \<lparr>Lead_name = ''A'', Lead_email = ''a@b.com'',
           Lead_phone = Some ''1'', Lead_company = None, Lead_message = None,
           Lead_product_slug = None, Lead_source = Some ''fair''\<rparr> =
      [(''name'', PStr ''A''), (''email'', PStr ''a@b.com''),
       (''phone'', PStr ''1''), (''company'', PNone), (''message'', PNone),
       (''product_slug'', PNone), (''source'', PStr ''fair'')]"
    by (simp add: dict_get_def)
  from t1 d1 have r1: "snd (post_leads always_raises ImportError ?b1) =
     Inr [(''status'', PStr ''ok''), (''message'', PStr ''Lead received''),
          (''lead'', PDict [(''name'', PStr ''A''), (''email'', PStr ''a@b.com''),
             (''phone'', PNone), (''company'', PNone), (''message'', PNone),
             (''product_slug'', PNone), (''source'', PStr ''website'')])]"
    by (simp only:)
  from t2 d2 have r2: "snd (post_leads always_raises ?F ?b2) =
     Inr [(''status'', PStr ''ok''), (''message'', PStr ''Lead received''),
          (''lead'', PDict [(''name'', PStr ''A''), (''email'', PStr ''a@b.com''),
             (''phone'', PStr ''1''), (''company'', PNone), (''message'', PNone),
             (''product_slug'', PNone), (''source'', PStr ''fair'')])]"
    by (simp only:)
  from h1 r1 h2 r2 show ?thesis by (intro conjI)
qed

text \<open>
  C10. A body whose name and email are strings, the empty string included, and whose
  other fields are missing, \<^verbatim>\<open>null\<close> or strings is accepted and answered with the same
  acknowledgement as any other lead. A body is rejected exactly when name or email is
  missing or not a string, or another field of the Lead holds a value that is neither a
  string nor \<^verbatim>\<open>null\<close>.
\<close>

theorem empty_name_or_email_accepted:
  "(map_of body ''name'' = Some (PStr n) \<and> map_of body ''email'' = Some (PStr e) \<and>
    (\<forall>k\<in>set optional_fields. is_opt_str (map_of body k)) \<longrightarrow>
      (\<exists>lead. validate_Lead body = Some lead \<and>
         Lead_name lead = n \<and> Lead_email lead = e \<and>
         snd (post_leads cd D body) =
           Inr [(''status'', PStr ''ok''), (''message'', PStr ''Lead received''),
                (''lead'', PDict (model_dump_Lead lead))])) \<and>
   (validate_Lead body = None \<longleftrightarrow>
      \<not> is_str (map_of body ''name'') \<or> \<not> is_str (map_of body ''email'') \<or>
      (\<exists>k\<in>set optional_fields. \<not> is_opt_str (map_of body k)))"
proof (intro conjI impI)
  assume a: "map_of body ''name'' = Some (PStr n) \<and> map_of body ''email'' = Some (PStr e) \<and>
    (\<forall>k\<in>set optional_fields. is_opt_str (map_of body k))"
  then have "validate_Lead body \<noteq> None"
    by (simp add: validate_Lead_None_iff)
  then obtain lead where l: "validate_Lead body = Some lead" by (cases "validate_Lead body") simp_all
  from validate_Lead_SomeD(1)[OF l] a have n: "Lead_name lead = n" by simp
  from validate_Lead_SomeD(2)[OF l] a have e: "Lead_email lead = e" by simp
  note r = post_leads_response[OF l, of cd D]
  show "\<exists>lead. validate_Lead body = Some lead \<and>
         Lead_name lead = n \<and> Lead_email lead = e \<and>
         snd (post_leads cd D body) =
           Inr [(''status'', PStr ''ok''), (''message'', PStr ''Lead received''),
                (''lead'', PDict (model_dump_Lead lead))]"
    by (rule exI[of _ lead]) (intro conjI l n e r)
next
  show "validate_Lead body = None \<longleftrightarrow>
      \<not> is_str (map_of body ''name'') \<or> \<not> is_str (map_of body ''email'') \<or>
      (\<exists>k\<in>set optional_fields. \<not> is_opt_str (map_of body k))"
    by (rule validate_Lead_None_iff)
qed

theorem empty_name_or_email_accepted_witness:
  "map_of [(''name'', PStr []), (''email'', PStr [])] ''name'' = Some (PStr []) \<and>
   map_of [(''name'', PStr []), (''email'', PStr [])] ''email'' = Some (PStr []) \<and>
   is_opt_str (map_of [(''name'', PStr []), (''email'', PStr [])] ''phone'') \<and>
   is_opt_str (map_of [(''name'', PStr []), (''email'', PStr [])] ''company'') \<and>
   is_opt_str (map_of [(''name'', PStr []), (''email'', PStr [])] ''message'') \<and>
   is_opt_str (map_of [(''name'', PStr []), (''email'', PStr [])] ''product_slug'') \<and>
   is_opt_str (map_of [(''name'', PStr []), (''email'', PStr [])] ''source'') \<and>
   (\<exists>lead. validate_Lead [(''name'', PStr []), (''email'', PStr [])] = Some lead \<and>
      Lead_name lead = [] \<and> Lead_email lead = [] \<and>
      snd (post_leads always_raises ImportError [(''name'', PStr []), (''email'', PStr [])]) =
        Inr [(''status'', PStr ''ok''), (''message'', PStr ''Lead received''),
             (''lead'', PDict (model_dump_Lead lead))])"
proof -
  let ?b = "[(''name'', PStr []), (''email'', PStr [])]"
  have h1: "map_of ?b ''name'' = Some (PStr [])" by simp
  have h2: "map_of ?b ''email'' = Some (PStr [])" by simp
  have h3: "\<forall>k\<in>set optional_fields. is_opt_str (map_of ?b k)"
    by (simp add: optional_fields_def)
  from h1 h2 h3
  have h: "map_of ?b ''name'' = Some (PStr []) \<and> map_of ?b ''email'' = Some (PStr []) \<and>
    (\<forall>k\<in>set optional_fields. is_opt_str (map_of ?b k))"
    by (intro conjI)
  from empty_name_or_email_accepted[of ?b "[]" "[]" always_raises ImportError,
      THEN conjunct1, THEN mp, OF h]
  have "\<exists>lead. validate_Lead ?b = Some lead \<and>
      Lead_name lead = [] \<and> Lead_email lead = [] \<and>
      snd (post_leads always_raises ImportError ?b) =
        Inr [(''status'', PStr ''ok''), (''message'', PStr ''Lead received''),
             (''lead'', PDict (model_dump_Lead lead))]" .
  moreover have "is_opt_str (map_of ?b ''phone'')" "is_opt_str (map_of ?b ''company'')"
    "is_opt_str (map_of ?b ''message'')" "is_opt_str (map_of ?b ''product_slug'')"
    "is_opt_str (map_of ?b ''source'')"
    by simp_all
  ultimately show ?thesis using h1 h2 by (intro conjI)
qed

section \<open>Stored pages\<close>











section \<open>The storage identifier\<close>

text \<open>
  C2. \<^verbatim>\<open>get_product\<close> passes the projection \<^verbatim>\<open>{"_id": 0}\<close> and never returns the
  storage identifier (\<open>get_product_no_id\<close> below). \<^verbatim>\<open>get_page\<close> passes no projection to
  \<^verbatim>\<open>find_one\<close>: a stored page comes back with its \<^verbatim>\<open>_id\<close>, here for the stored page
  \<^verbatim>\<open>about\<close>.
\<close>

theorem get_page_keeps_storage_id:
  "get_page strict_mode
     (Module (Some [(''page'',
        Docs [[(''_id'', PStr ''p1''), (''title'', PStr ''About''), (''slug'', PStr ''about'')]])]))
     ''about'' =
   Inr [(''_id'', PStr ''p1''), (''title'', PStr ''About''), (''slug'', PStr ''about''),
        (''sections'', PList [])]"
  by (simp add: get_page_def db_available_def page_from_db_def get_db_def find_one_def
      matches_def field_matches_def exclude_def dict_get_def dict_set_def)

lemma exclude_no_key: "k \<in> set ks \<Longrightarrow> k \<notin> fst ` set (exclude ks d)"
  by (auto simp: exclude_def)

lemma default_products_no_id: "p \<in> set default_products \<Longrightarrow> ''_id'' \<notin> fst ` set p"
  by (auto simp: default_products_eq)

lemma get_product_no_id:
  assumes "get_product D slug = Inr p"
  shows "''_id'' \<notin> fst ` set p"
proof (cases "if db_available D
            then (case product_from_db D slug of None \<Rightarrow> None | Some r \<Rightarrow> r)
            else None")
  case None
  with assms have "List.find (\<lambda>q. map_of q ''slug'' = Some (PStr slug)) default_products = Some p"
    by (simp add: get_product_def split: option.splits)
  then have "p \<in> set default_products" by (auto simp: find_Some_iff)
  then show ?thesis by (rule default_products_no_id)
next
  case (Some item)
  with assms have p: "item = p" by (simp add: get_product_def)
  from Some have "product_from_db D slug = Some (Some item)"
    by (auto split: if_splits option.splits)
  then obtain c d where "find_one c [(''slug'', PStr slug)] [''_id''] = Some (Some d)"
    and "item = d"
    by (auto simp: product_from_db_def bind_eq_Some_conv split: option.splits if_splits)
  then obtain d0 where "item = exclude [''_id''] d0"
    by (auto simp: find_one_def split: collection.splits)
  then have "''_id'' \<notin> fst ` set item"
    using exclude_no_key[of "''_id''" "[''_id'']" d0] by simp
  with p show ?thesis by simp
qed

end
